theory Spec2Isabelle
  imports Main "HOL-Library.Sublist" "HOL-Library.AList"
begin

section \<open>The Chalice GraphQL view: data model\<close>

text \<open>
  The development embeds \<^verbatim>\<open>strawberry/chalice/views.py\<close>: the class
  \<^verbatim>\<open>GraphQLView\<close> with its methods \<^verbatim>\<open>should_render_graphiql\<close>,
  \<^verbatim>\<open>error_response\<close>, \<^verbatim>\<open>get_context\<close>, \<^verbatim>\<open>get_root_value\<close> and
  \<^verbatim>\<open>execute_request\<close>. Python's \<^verbatim>\<open>x in s\<close> on two strings is substring
  containment, which is \<^const>\<open>sublist\<close> on character lists.
\<close>

text \<open>A decoded JSON value; a Python \<^verbatim>\<open>dict\<close> is a list of key/value entries
  read with \<^const>\<open>map_of\<close>, and \<^verbatim>\<open>None\<close> is \<open>JNull\<close>.\<close>

datatype json =
    JNull
  | JBool bool
  | JNum int
  | JStr string
  | JList "json list"
  | JDict "(string \<times> json) list"

text \<open>\<^verbatim>\<open>strawberry.types.graphql.OperationType\<close>.\<close>

datatype OperationType = QUERY | MUTATION | SUBSCRIPTION

text \<open>The exception classes the module names, and the \<^verbatim>\<open>ValueError\<close> of an
  unsupported method.\<close>

datatype exn =
    BadRequestError
  | JSONDecodeError
  | MissingQueryError
  | InvalidOperationTypeError OperationType
  | ValueError

text \<open>
  The request of the host framework, read-only to the view. \<open>http_method\<close> is
  \<^verbatim>\<open>request.method\<close>; \<open>headers\<close> is the
  framework's header mapping (keys in lower case); \<open>query_params\<close> is \<^verbatim>\<open>None\<close> or
  the mapping of the query-string parameters; \<open>json_body\<close> is what reading the
  property \<^verbatim>\<open>request.json_body\<close> gives: the decoded body, or the exception it raises.
\<close>

record Request =
  http_method :: string
  headers :: "string \<rightharpoonup> string"
  query_params :: "(string \<times> string) list option"
  json_body :: "exn + json"

text \<open>The body of a response: a string (the explorer page) or a dictionary.\<close>

datatype body = Text string | Dict "(string \<times> json) list"

text \<open>The arguments of the framework's \<^verbatim>\<open>Response(body, headers, status_code)\<close>.\<close>

record Response =
  body :: body
  status_code :: int
  resp_headers :: "(string \<times> string) list option"

text \<open>Modelled from the spec: \<^verbatim>\<open>strawberry.http.temporal_response.TemporalResponse\<close>
  is not among the sources; it is the mutable response placeholder, whose status code
  is 200 until something sets it.\<close>

record TemporalResponse =
  temporal_status_code :: int
  temporal_headers :: "(string \<times> string) list"

text \<open>Modelled from the spec: the constructor call \<^verbatim>\<open>TemporalResponse()\<close>, a fresh
  placeholder with the default status code 200 and no headers.\<close>

definition TemporalResponse_new :: TemporalResponse where
  "TemporalResponse_new = \<lparr>temporal_status_code = 200, temporal_headers = []\<rparr>"

text \<open>The objects stored in the context mapping.\<close>

datatype ctx_value = RequestObj Request | ResponseObj TemporalResponse

type_synonym ctx = "string \<rightharpoonup> ctx_value"

text \<open>\<^verbatim>\<open>strawberry.types.ExecutionResult\<close>: data payload, formatted errors, extensions.\<close>

record ExecutionResult =
  result_data :: json
  result_errors :: "json list"
  result_extensions :: json

text \<open>\<^verbatim>\<open>GraphQLRequestData\<close>: query text, variables, operation name
  (an absent entry is \<^verbatim>\<open>None\<close>).\<close>

record GraphQLRequestData =
  query :: json
  variables :: json
  operation_name :: json

text \<open>The keyword arguments of the call \<^verbatim>\<open>self._schema.execute_sync(...)\<close>.\<close>

record execute_sync_args =
  arg_query :: json
  variable_values :: json
  context_value :: ctx
  arg_operation_name :: json
  root_value :: json
  allowed_operation_types :: "OperationType set"

text \<open>
  The GraphQL engine behind \<^verbatim>\<open>self._schema\<close> is a parameter: \<open>operation_type\<close>
  classifies the operation that a query text and an operation name select (\<open>None\<close>
  when the text selects none), and \<open>run\<close> executes a call, giving the execution result
  and the state in which the resolvers leave the response placeholder that the context
  holds under \<^verbatim>\<open>"response"\<close>.
\<close>

record BaseSchema =
  operation_type :: "json \<Rightarrow> json \<Rightarrow> OperationType option"
  run :: "execute_sync_args \<Rightarrow> ExecutionResult \<times> TemporalResponse"

text \<open>The fields \<^verbatim>\<open>__init__\<close> sets.\<close>

record GraphQLView =
  graphiql :: bool
  allow_queries_via_get :: bool
  schema :: BaseSchema

text \<open>
  The module-level functions imported from outside the package's sources and used as
  black boxes: \<^verbatim>\<open>json.loads\<close> (\<open>None\<close> for a \<^verbatim>\<open>JSONDecodeError\<close>),
  \<^verbatim>\<open>process_result\<close> and the static page of \<^verbatim>\<open>render_graphiql_page\<close>.
\<close>

record externals =
  json_loads :: "string \<Rightarrow> json option"
  process_result :: "ExecutionResult \<Rightarrow> (string \<times> json) list"
  render_graphiql_page :: string

text \<open>What a call of \<^verbatim>\<open>execute_request\<close> does: it returns a response or lets an
  exception escape, and it has made the listed calls of the engine, in order.\<close>

type_synonym outcome = "(exn + Response) \<times> execute_sync_args list"

section \<open>Collaborators modelled from the specification\<close>

text \<open>Modelled from the spec: \<^verbatim>\<open>OperationType.from_http\<close> is not among the sources.
  POST permits all kinds, GET permits query only; the spec gives no set for another
  method, for which the model raises.\<close>

definition from_http :: "string \<Rightarrow> exn + OperationType set" where
  "from_http m =
     (if m = ''GET'' then Inr {QUERY}
      else if m = ''POST'' then Inr {QUERY, MUTATION, SUBSCRIPTION}
      else Inl ValueError)"

text \<open>Modelled from the spec: \<^verbatim>\<open>strawberry.http.parse_query_params\<close> is not among
  the sources. The parameters become a mapping of the same shape as a JSON body: the
  values are strings, except the variables, which are JSON inside a parameter and are
  decoded; malformed JSON there raises \<^verbatim>\<open>JSONDecodeError\<close>.\<close>

definition parse_query_params ::
  "(string \<Rightarrow> json option) \<Rightarrow> (string \<times> string) list \<Rightarrow> exn + (string \<times> json) list" where
  "parse_query_params loads params =
     (let strs = map (\<lambda>(k, v). (k, JStr v)) params in
      case map_of params ''variables'' of
        None \<Rightarrow> Inr strs
      | Some s \<Rightarrow>
          (case loads s of
             None \<Rightarrow> Inl JSONDecodeError
           | Some j \<Rightarrow> Inr (AList.update ''variables'' j strs)))"

text \<open>\<^verbatim>\<open>data.get(key)\<close> on a decoded mapping: \<^verbatim>\<open>None\<close> for an absent key.\<close>

definition dict_get :: "(string \<times> json) list \<Rightarrow> string \<Rightarrow> json" where
  "dict_get d k = (case map_of d k of None \<Rightarrow> JNull | Some v \<Rightarrow> v)"

text \<open>Modelled from the spec: \<^verbatim>\<open>strawberry.http.parse_request_data\<close> is not among
  the sources. It extracts query, variables and operation name from the parsed mapping;
  a mapping without query text raises \<^verbatim>\<open>MissingQueryError\<close>.\<close>

definition parse_request_data :: "(string \<times> json) list \<Rightarrow> exn + GraphQLRequestData" where
  "parse_request_data d =
     (case map_of d ''query'' of
        None \<Rightarrow> Inl MissingQueryError
      | Some q \<Rightarrow>
          Inr \<lparr>query = q, variables = dict_get d ''variables'',
               operation_name = dict_get d ''operationName''\<rparr>)"

text \<open>Modelled from the spec: \<^verbatim>\<open>InvalidOperationTypeError.as_http_error_reason\<close> is
  not among the sources. It gives the explanatory message, which references the
  method.\<close>

fun kind_plural :: "OperationType \<Rightarrow> string" where
  "kind_plural QUERY = ''queries''"
| "kind_plural MUTATION = ''mutations''"
| "kind_plural SUBSCRIPTION = ''subscriptions''"

definition as_http_error_reason :: "OperationType \<Rightarrow> string \<Rightarrow> string" where
  "as_http_error_reason k m = kind_plural k @ '' are not allowed when using '' @ m"

text \<open>Modelled from the spec: \<^verbatim>\<open>BaseSchema.execute_sync\<close> is not among the sources.
  An operation whose kind is outside the permitted set is refused with
  \<^verbatim>\<open>InvalidOperationTypeError\<close>; anything else is executed, and the call gives the
  execution result together with the final state of the response placeholder.\<close>

definition execute_sync ::
  "BaseSchema \<Rightarrow> execute_sync_args \<Rightarrow> exn + (ExecutionResult \<times> TemporalResponse)" where
  "execute_sync s a =
     (case operation_type s (arg_query a) (arg_operation_name a) of
        None \<Rightarrow> Inr (run s a)
      | Some k \<Rightarrow>
          if k \<in> allowed_operation_types a then Inr (run s a)
          else Inl (InvalidOperationTypeError k))"

section \<open>The methods of GraphQLView\<close>

text \<open>\<^verbatim>\<open>mapping.get(key, default)\<close>.\<close>

definition headers_get :: "(string \<rightharpoonup> string) \<Rightarrow> string \<Rightarrow> string \<Rightarrow> string" where
  "headers_get h k d = (case h k of None \<Rightarrow> d | Some v \<Rightarrow> v)"

text \<open>The entries of \<^verbatim>\<open>request.query_params\<close>, and its truth value: \<^verbatim>\<open>None\<close> and
  the empty mapping are both false.\<close>

fun items :: "(string \<times> string) list option \<Rightarrow> (string \<times> string) list" where
  "items None = []"
| "items (Some ps) = ps"

definition truthy :: "(string \<times> string) list option \<Rightarrow> bool" where
  "truthy qp = (items qp \<noteq> [])"

definition get_root_value :: "Request \<Rightarrow> json" where
  "get_root_value request = JNull"

definition render_graphiql :: "externals \<Rightarrow> string" where
  "render_graphiql ext = render_graphiql_page ext"

definition should_render_graphiql :: "bool \<Rightarrow> Request \<Rightarrow> bool" where
  "should_render_graphiql g request =
     (if \<not> g then False
      else list_ex (\<lambda>supported_header.
             sublist supported_header (headers_get (headers request) ''accept'' ''''))
             [''text/html'', ''*/*''])"

definition error_response ::
  "string \<Rightarrow> string \<Rightarrow> int \<Rightarrow> (string \<times> string) list option \<Rightarrow> Response" where
  "error_response message error_code http_status_code hdrs =
     \<lparr>body = Dict [(''Code'', JStr error_code), (''Message'', JStr message)],
      status_code = http_status_code, resp_headers = hdrs\<rparr>"

definition get_context :: "Request \<Rightarrow> TemporalResponse \<Rightarrow> ctx" where
  "get_context request response =
     [''request'' \<mapsto> RequestObj request, ''response'' \<mapsto> ResponseObj response]"

definition returns :: "Response \<Rightarrow> outcome" where
  "returns r = (Inr r, [])"

definition raises :: "exn \<Rightarrow> outcome" where
  "raises e = (Inl e, [])"

text \<open>
  Lines 155 to 196 of \<^verbatim>\<open>execute_request\<close>: the code after the
  \<^verbatim>\<open>if\<close>/\<^verbatim>\<open>elif\<close> chain, which the branches that bind \<^verbatim>\<open>data\<close> reach.
  An \<^verbatim>\<open>except\<close> clause catches its own exception class and lets any other escape.
\<close>

definition execute_data ::
  "externals \<Rightarrow> GraphQLView \<Rightarrow> Request \<Rightarrow> string \<Rightarrow> (string \<times> json) list \<Rightarrow> outcome" where
  "execute_data ext self request m data =
     (case parse_request_data data of
        Inl MissingQueryError \<Rightarrow>
          returns (error_response ''No GraphQL query found in the request''
                     ''BadRequestError'' 400 None)
      | Inl e \<Rightarrow> raises e
      | Inr request_data \<Rightarrow>
          (case from_http m of
             Inl e \<Rightarrow> raises e
           | Inr from_method \<Rightarrow>
               (let allowed =
                      (if \<not> allow_queries_via_get self \<and> m = ''GET''
                       then from_method - {QUERY} else from_method);
                    context = get_context request TemporalResponse_new;
                    args = \<lparr>arg_query = query request_data,
                            variable_values = variables request_data,
                            context_value = context,
                            arg_operation_name = operation_name request_data,
                            root_value = get_root_value request,
                            allowed_operation_types = allowed\<rparr>
                in case execute_sync (schema self) args of
                     Inl (InvalidOperationTypeError k) \<Rightarrow>
                       (Inr (error_response (as_http_error_reason k m)
                               ''BadRequestError'' 400 None), [args])
                   | Inl e \<Rightarrow> (Inl e, [args])
                   | Inr (result, placeholder) \<Rightarrow>
                       (let http_result = process_result ext result;
                            status = (if context ''response'' \<noteq> None
                                      then temporal_status_code placeholder else 200)
                        in (Inr \<lparr>body = Dict http_result, status_code = status,
                                 resp_headers = None\<rparr>, [args])))))"

text \<open>\<^verbatim>\<open>execute_request\<close>, lines 104 to 153, continued by \<^const>\<open>execute_data\<close>.\<close>

definition execute_request :: "externals \<Rightarrow> GraphQLView \<Rightarrow> Request \<Rightarrow> outcome" where
  "execute_request ext self request =
     (let m = http_method request in
      if m \<notin> {''POST'', ''GET''} then
        returns (error_response
                   ''Unsupported method, must be of request type POST or GET''
                   ''MethodNotAllowedError'' 405 None)
      else
        (let content_type = headers_get (headers request) ''content-type'' '''' in
         if sublist ''application/json'' content_type then
           (case json_body request of
              Inr (JDict data) \<Rightarrow> execute_data ext self request m data
            | Inr _ \<Rightarrow>
                returns (error_response
                           ''Provide a valid graphql query in the body of your request''
                           ''BadRequestError'' 400 None)
            | Inl BadRequestError \<Rightarrow>
                returns (error_response ''Unable to parse request body as JSON''
                           ''BadRequestError'' 400 None)
            | Inl e \<Rightarrow> raises e)
         else if m = ''GET'' \<and> truthy (query_params request) then
           (case parse_query_params (json_loads ext) (items (query_params request)) of
              Inr data \<Rightarrow> execute_data ext self request m data
            | Inl JSONDecodeError \<Rightarrow>
                returns (error_response ''Unable to parse request body as JSON''
                           ''BadRequestError'' 400 None)
            | Inl e \<Rightarrow> raises e)
         else if m = ''GET'' \<and> should_render_graphiql (graphiql self) request then
           returns \<lparr>body = Text (render_graphiql ext), status_code = 200,
                    resp_headers = Some [(''content-type'', ''text/html'')]\<rparr>
         else
           returns (error_response ''Not found'' ''NotFoundError'' 404 None)))"

section \<open>Sample collaborators and requests\<close>

text \<open>A decoder that knows one document, an engine that knows two operations and whose
  mutation sets the status code of the placeholder it finds in the context, and a view
  over them, with and without queries via GET.\<close>

definition sample_loads :: "string \<Rightarrow> json option" where
  "sample_loads s = (if s = ''{}'' then Some (JDict []) else None)"

definition sample_ext :: externals where
  "sample_ext = \<lparr>json_loads = sample_loads,
     process_result = (\<lambda>r. [(''data'', result_data r)]),
     render_graphiql_page = ''<html>GraphiQL</html>''\<rparr>"

definition sample_kind :: "json \<Rightarrow> json \<Rightarrow> OperationType option" where
  "sample_kind q n =
     (if q = JStr ''{ hello }'' then Some QUERY
      else if q = JStr ''mutation { hello }'' then Some MUTATION
      else None)"

definition placeholder_of :: "ctx \<Rightarrow> TemporalResponse" where
  "placeholder_of c =
     (case c ''response'' of Some (ResponseObj r) \<Rightarrow> r | _ \<Rightarrow> TemporalResponse_new)"

definition sample_run :: "execute_sync_args \<Rightarrow> ExecutionResult \<times> TemporalResponse" where
  "sample_run a =
     (\<lparr>result_data = JDict [(''hello'', JStr ''hi'')], result_errors = [],
       result_extensions = JNull\<rparr>,
      if arg_query a = JStr ''mutation { hello }''
      then (placeholder_of (context_value a))\<lparr>temporal_status_code := 201\<rparr>
      else placeholder_of (context_value a))"

definition sample_schema :: BaseSchema where
  "sample_schema = \<lparr>operation_type = sample_kind, run = sample_run\<rparr>"

definition sample_view :: GraphQLView where
  "sample_view = \<lparr>graphiql = True, allow_queries_via_get = True, schema = sample_schema\<rparr>"

definition strict_view :: GraphQLView where
  "strict_view = \<lparr>graphiql = True, allow_queries_via_get = False, schema = sample_schema\<rparr>"




definition get_query :: Request where
  "get_query = \<lparr>http_method = ''GET'', headers = Map.empty,
     query_params = Some [(''query'', ''{ hello }'')], json_body = Inr JNull\<rparr>"

definition post_query :: Request where
  "post_query = \<lparr>http_method = ''POST'', headers = [''content-type'' \<mapsto> ''application/json''],
     query_params = None, json_body = Inr (JDict [(''query'', JStr ''{ hello }'')])\<rparr>"

definition post_mutation :: Request where
  "post_mutation = \<lparr>http_method = ''POST'',
     headers = [''content-type'' \<mapsto> ''application/json''],
     query_params = None,
     json_body = Inr (JDict [(''query'', JStr ''mutation { hello }'')])\<rparr>"

definition post_mutation_call :: execute_sync_args where
  "post_mutation_call = \<lparr>arg_query = JStr ''mutation { hello }'', variable_values = JNull,
     context_value = get_context post_mutation TemporalResponse_new,
     arg_operation_name = JNull, root_value = JNull,
     allowed_operation_types = {QUERY, MUTATION, SUBSCRIPTION}\<rparr>"








definition get_plain :: Request where
  "get_plain = \<lparr>http_method = ''GET'', headers = [''accept'' \<mapsto> ''text/plain''],
     query_params = Some [], json_body = Inr JNull\<rparr>"


lemmas view_defs =
  execute_request_def execute_data_def returns_def raises_def Let_def headers_get_def
  truthy_def parse_query_params_def parse_request_data_def dict_get_def from_http_def
  execute_sync_def as_http_error_reason_def get_context_def get_root_value_def
  should_render_graphiql_def render_graphiql_def sublist_code(3)

lemmas sample_defs =
  sample_loads_def sample_ext_def sample_kind_def placeholder_of_def sample_run_def
  sample_schema_def sample_view_def strict_view_def

section \<open>Branches of execute_request\<close>

lemma execute_data_call:
  assumes "execute_data ext self request m data = (res, calls)" and "a \<in> set calls"
  shows "calls = [a]"
    and "\<exists>rd fm. parse_request_data data = Inr rd \<and> from_http m = Inr fm
           \<and> a = \<lparr>arg_query = query rd, variable_values = variables rd,
                   context_value = get_context request TemporalResponse_new,
                   arg_operation_name = operation_name rd,
                   root_value = get_root_value request,
                   allowed_operation_types =
                     (if \<not> allow_queries_via_get self \<and> m = ''GET'' then fm - {QUERY} else fm)\<rparr>"
    and "res = (case execute_sync (schema self) a of
                  Inl (InvalidOperationTypeError k) \<Rightarrow>
                    Inr (error_response (as_http_error_reason k m) ''BadRequestError'' 400 None)
                | Inl e \<Rightarrow> Inl e
                | Inr (result, placeholder) \<Rightarrow>
                    Inr \<lparr>body = Dict (process_result ext result),
                         status_code = temporal_status_code placeholder,
                         resp_headers = None\<rparr>)"
  using assms
  by (auto simp: execute_data_def returns_def raises_def Let_def get_context_def
           split: sum.splits exn.splits prod.splits)

lemma bad_method_branch:
  "http_method request \<noteq> ''POST'' \<Longrightarrow> http_method request \<noteq> ''GET'' \<Longrightarrow>
   execute_request ext self request =
     returns (error_response ''Unsupported method, must be of request type POST or GET''
                ''MethodNotAllowedError'' 405 None)"
  by (simp add: execute_request_def)

lemma json_branch:
  "http_method request = ''POST'' \<or> http_method request = ''GET'' \<Longrightarrow>
   sublist ''application/json'' (headers_get (headers request) ''content-type'' '''') \<Longrightarrow>
   execute_request ext self request =
     (case json_body request of
        Inr (JDict data) \<Rightarrow> execute_data ext self request (http_method request) data
      | Inr _ \<Rightarrow>
          returns (error_response
                     ''Provide a valid graphql query in the body of your request''
                     ''BadRequestError'' 400 None)
      | Inl BadRequestError \<Rightarrow>
          returns (error_response ''Unable to parse request body as JSON''
                     ''BadRequestError'' 400 None)
      | Inl e \<Rightarrow> raises e)"
  by (auto simp add: execute_request_def Let_def)

lemma params_branch:
  "http_method request = ''GET'' \<Longrightarrow>
   \<not> sublist ''application/json'' (headers_get (headers request) ''content-type'' '''') \<Longrightarrow>
   truthy (query_params request) \<Longrightarrow>
   execute_request ext self request =
     (case parse_query_params (json_loads ext) (items (query_params request)) of
        Inr data \<Rightarrow> execute_data ext self request ''GET'' data
      | Inl JSONDecodeError \<Rightarrow>
          returns (error_response ''Unable to parse request body as JSON''
                     ''BadRequestError'' 400 None)
      | Inl e \<Rightarrow> raises e)"
  by (simp add: execute_request_def Let_def)

lemma explorer_branch:
  "http_method request = ''GET'' \<Longrightarrow>
   \<not> sublist ''application/json'' (headers_get (headers request) ''content-type'' '''') \<Longrightarrow>
   \<not> truthy (query_params request) \<Longrightarrow>
   should_render_graphiql (graphiql self) request \<Longrightarrow>
   execute_request ext self request =
     returns \<lparr>body = Text (render_graphiql ext), status_code = 200,
              resp_headers = Some [(''content-type'', ''text/html'')]\<rparr>"
  by (simp add: execute_request_def Let_def)

lemma not_found_branch:
  "http_method request = ''POST'' \<or> http_method request = ''GET'' \<Longrightarrow>
   \<not> sublist ''application/json'' (headers_get (headers request) ''content-type'' '''') \<Longrightarrow>
   http_method request = ''GET'' \<longrightarrow>
     \<not> truthy (query_params request) \<and> \<not> should_render_graphiql (graphiql self) request \<Longrightarrow>
   execute_request ext self request =
     returns (error_response ''Not found'' ''NotFoundError'' 404 None)"
  by (auto simp add: execute_request_def Let_def)

lemma execute_request_call:
  assumes "execute_request ext self request = (res, calls)" and "a \<in> set calls"
  shows "\<exists>data. (http_method request = ''POST'' \<or> http_method request = ''GET'')
           \<and> execute_data ext self request (http_method request) data = (res, calls)"
proof (cases "http_method request = ''POST'' \<or> http_method request = ''GET''")
  case False
  then show ?thesis
    using assms bad_method_branch [of request ext self] by (simp add: returns_def)
next
  case meth: True
  show ?thesis
  proof (cases "sublist ''application/json''
                  (headers_get (headers request) ''content-type'' '''')")
    case True
    then show ?thesis
      using assms meth json_branch [of request ext self]
      by (auto simp: returns_def raises_def split: sum.splits exn.splits json.splits)
  next
    case nojson: False
    show ?thesis
    proof (cases "http_method request = ''GET'' \<and> truthy (query_params request)")
      case True
      then show ?thesis
        using assms nojson params_branch [of request ext self]
        by (auto simp: returns_def raises_def split: sum.splits exn.splits)
    next
      case noparams: False
      show ?thesis
      proof (cases "http_method request = ''GET''
                      \<and> should_render_graphiql (graphiql self) request")
        case True
        then show ?thesis
          using assms nojson noparams by (simp add: explorer_branch returns_def)
      next
        case False
        then show ?thesis
          using assms meth nojson noparams by (simp add: not_found_branch returns_def)
      qed
    qed
  qed
qed








section \<open>Properties\<close>

















text \<open>
  C8. When the engine executes the request, the body of the response is the processed
  execution result and the status code is the one the response placeholder holds after
  the call. The placeholder is the object the context hands to the engine under
  \<^verbatim>\<open>"response"\<close>, next to the request; it is created with status code 200, which is
  therefore the status when nothing sets it.
\<close>

theorem engine_result_response:
  assumes "execute_request ext self request = (res, calls)" and "a \<in> set calls"
    and "execute_sync (schema self) a = Inr (result, placeholder)"
  shows "res = Inr \<lparr>body = Dict (process_result ext result),
                    status_code = temporal_status_code placeholder,
                    resp_headers = None\<rparr>
       \<and> context_value a ''response'' = Some (ResponseObj TemporalResponse_new)
       \<and> context_value a ''request'' = Some (RequestObj request)
       \<and> temporal_status_code TemporalResponse_new = 200"
proof -
  obtain data where
    ed: "execute_data ext self request (http_method request) data = (res, calls)"
    using execute_request_call [OF assms(1,2)] by blast
  have r: "res = Inr \<lparr>body = Dict (process_result ext result),
                    status_code = temporal_status_code placeholder,
                    resp_headers = None\<rparr>"
    using execute_data_call(3) [OF ed assms(2)] assms(3) by simp
  have c: "context_value a = get_context request TemporalResponse_new"
    using execute_data_call(2) [OF ed assms(2)] by force
  show ?thesis
    using r c by (auto simp: get_context_def TemporalResponse_new_def)
qed

theorem engine_result_response_witness:
  "execute_request sample_ext sample_view post_mutation =
     (Inr \<lparr>body = Dict [(''data'', JDict [(''hello'', JStr ''hi'')])],
            status_code = 201, resp_headers = None\<rparr>, [post_mutation_call])
   \<and> snd (sample_run post_mutation_call)
       = \<lparr>temporal_status_code = 201, temporal_headers = []\<rparr>"
proof -
  have run: "execute_request sample_ext sample_view post_mutation =
     (Inr \<lparr>body = Dict [(''data'', JDict [(''hello'', JStr ''hi'')])],
            status_code = 201, resp_headers = None\<rparr>, [post_mutation_call])"
    by (simp add: view_defs sample_defs post_mutation_def post_mutation_call_def
                  TemporalResponse_new_def)
  have mem: "post_mutation_call \<in> set [post_mutation_call]" by simp
  have ex: "execute_sync (schema sample_view) post_mutation_call =
      Inr (\<lparr>result_data = JDict [(''hello'', JStr ''hi'')], result_errors = [],
             result_extensions = JNull\<rparr>,
           \<lparr>temporal_status_code = 201, temporal_headers = []\<rparr>)"
    by (simp add: view_defs sample_defs post_mutation_call_def TemporalResponse_new_def)
  have sr: "snd (sample_run post_mutation_call)
       = \<lparr>temporal_status_code = 201, temporal_headers = []\<rparr>"
    by (simp add: sample_defs post_mutation_call_def get_context_def
                  TemporalResponse_new_def)
  from engine_result_response [OF run mem ex] run sr show ?thesis by simp
qed





section \<open>Further instances\<close>

text \<open>With queries via GET disabled, a GET query is refused as well.\<close>

lemma get_query_refused_when_disabled:
  "fst (execute_request sample_ext strict_view get_query) =
     Inr (error_response ''queries are not allowed when using GET''
            ''BadRequestError'' 400 None)"
  by (simp add: view_defs sample_defs get_query_def)

text \<open>A query that sets nothing on the placeholder is answered with status 200.\<close>

lemma post_query_default_200:
  "fst (execute_request sample_ext sample_view post_query) =
     Inr \<lparr>body = Dict [(''data'', JDict [(''hello'', JStr ''hi'')])],
          status_code = 200, resp_headers = None\<rparr>"
  by (simp add: view_defs sample_defs post_query_def TemporalResponse_new_def)

text \<open>An Accept header for plain text and an empty parameter mapping give 404 as well.\<close>

lemma get_plain_404:
  "execute_request sample_ext sample_view get_plain =
     (Inr (error_response ''Not found'' ''NotFoundError'' 404 None), [])"
  by (simp add: view_defs sample_defs get_plain_def)

end
